theory Spec2Isabelle
  imports Main "HOL-Library.Sublist"
begin

section \<open>Values that cross the HTTP boundary\<close>

text \<open>
  A property of the parsed JSON body (\<open>req.body\<close>) is a JavaScript value. Reading a
  property that the body does not have gives \<open>undefined\<close>, so a body is a total
  function from property names to values. \<open>JOther\<close> stands for every remaining JSON
  value (a number, an array, an object) and carries the text that the database driver
  sends to the store for it.
\<close>

datatype jsval = JUndefined | JNull | JBool bool | JStr string | JOther string

type_synonym js_object = "string \<Rightarrow> jsval"

definition empty_object :: js_object where
  "empty_object = (\<lambda>k. JUndefined)"

text \<open>
  The driver's conversion of a query parameter: \<open>null\<close> and \<open>undefined\<close> are both SQL
  NULL (\<open>None\<close>); every other value travels as text.
\<close>

fun prepareValue :: "jsval \<Rightarrow> string option" where
  "prepareValue JUndefined = None"
| "prepareValue JNull = None"
| "prepareValue (JBool b) = Some (if b then ''true'' else ''false'')"
| "prepareValue (JStr s) = Some s"
| "prepareValue (JOther s) = Some s"

section \<open>The record store: table \<open>todos\<close>\<close>

text \<open>
  \<^verbatim>\<open>
  CREATE TABLE todos (
      todo_id SERIAL PRIMARY KEY,
      title VARCHAR(255) NOT NULL,
      description VARCHAR(255) NOT NULL,
      priority VARCHAR(20) DEFAULT 'medium',
      category VARCHAR(50) DEFAULT 'general',
      completed BOOLEAN DEFAULT FALSE,
      created_at TIMESTAMP DEFAULT CURRENT_TIMESTAMP
  );
  \<close>
  A row has an integer key, two columns that are never NULL (plain strings) and four
  nullable columns (options). A string is a list of characters, a \<open>char\<close> standing for
  the character with that code (0 to 255); lengths count characters.
\<close>

record todo =
  todo_id :: int
  title :: string
  description :: string
  priority :: "string option"
  category :: "string option"
  completed :: "bool option"
  created_at :: "nat option"

text \<open>
  The table in scan order and the next value of the sequence behind the SERIAL column.
  An INSERT appends, an UPDATE takes the written row from its place and puts the new
  version last, and a SELECT without ORDER BY gives the rows in this order.
\<close>

record db =
  rows :: "todo list"
  seq_next :: int

definition init_db :: db where
  "init_db = \<lparr>rows = [], seq_next = 1\<rparr>"

text \<open>What the store can raise. Each carries the detail that the driver puts in \<open>err.message\<close>.\<close>

datatype store_error =
    Connection_failure
  | Invalid_byte_sequence
  | Not_null_violation string
  | String_too_long nat
  | Invalid_integer string
  | Integer_out_of_range string
  | Invalid_boolean string
  | Sequence_exhausted
  | Unique_violation int
  | Bad_parameters

text \<open>The circumstances of one query: whether the store can be reached, and the store's clock.\<close>

record store_env =
  connected :: bool
  current_timestamp :: nat

subsection \<open>Text to column types\<close>

definition is_space :: "char \<Rightarrow> bool" where
  "is_space c = (c \<in> set [CHR '' '', CHR 0x09, CHR 0x0A, CHR 0x0B, CHR 0x0C, CHR 0x0D])"

definition is_digit :: "char \<Rightarrow> bool" where
  "is_digit c = (48 \<le> (of_char c :: nat) \<and> (of_char c :: nat) \<le> 57)"

definition digit_value :: "char \<Rightarrow> nat" where
  "digit_value c = of_char c - 48"

definition digits_value :: "string \<Rightarrow> nat" where
  "digits_value ds = foldl (\<lambda>a c. 10 * a + digit_value c) 0 ds"

text \<open>
  A string stored into a VARCHAR(n) column: accepted up to \<open>n\<close> characters; a longer one
  is an error unless every character beyond the first \<open>n\<close> is a space, in which case it
  is cut to \<open>n\<close> characters. NULL passes.
\<close>

definition varchar :: "nat \<Rightarrow> string option \<Rightarrow> store_error + string option" where
  "varchar n v =
     (case v of
        None \<Rightarrow> Inr None
      | Some s \<Rightarrow>
          if length s \<le> n then Inr (Some s)
          else if list_all (\<lambda>c. c = CHR '' '') (drop n s) then Inr (Some (take n s))
          else Inl (String_too_long n))"

text \<open>
  Text read as a 32-bit integer (the type of \<open>todo_id\<close>): optional white space, an
  optional sign, at least one decimal digit, optional white space; anything else is an
  error, and so is a value outside the 32-bit range. Only the decimal spelling is
  modelled.
\<close>

definition int4in :: "string \<Rightarrow> store_error + int" where
  "int4in s =
     (let body = dropWhile is_space s;
          neg = (case body of [] \<Rightarrow> False | c # cs \<Rightarrow> c = CHR ''-'');
          rest = (case body of [] \<Rightarrow> []
                  | c # cs \<Rightarrow> if c = CHR ''-'' \<or> c = CHR ''+'' then cs else body);
          ds = takeWhile is_digit rest;
          tail = dropWhile is_digit rest
      in if ds = [] \<or> \<not> list_all is_space tail then Inl (Invalid_integer s)
         else let n = (if neg then - int (digits_value ds) else int (digits_value ds))
              in if n < - 2147483648 \<or> 2147483647 < n then Inl (Integer_out_of_range s)
                 else Inr n)"

definition int4_param :: "string option \<Rightarrow> store_error + int option" where
  "int4_param v =
     (case v of
        None \<Rightarrow> Inr None
      | Some s \<Rightarrow> (case int4in s of Inl e \<Rightarrow> Inl e | Inr n \<Rightarrow> Inr (Some n)))"

definition to_lower :: "char \<Rightarrow> char" where
  "to_lower c =
     (if 65 \<le> (of_char c :: nat) \<and> (of_char c :: nat) \<le> 90
      then char_of ((of_char c :: nat) + 32) else c)"

text \<open>
  Text read as a boolean (the type of \<open>completed\<close>): surrounding white space and case
  are ignored, and the accepted spellings are the prefixes of true, false, yes and no,
  on, off (from two letters), 1 and 0.
\<close>

definition boolin :: "string \<Rightarrow> store_error + bool" where
  "boolin s =
     (let w = map to_lower (rev (dropWhile is_space (rev (dropWhile is_space s))))
      in if w \<in> set [''t'', ''tr'', ''tru'', ''true'', ''y'', ''ye'', ''yes'', ''on'', ''1'']
         then Inr True
         else if w \<in> set [''f'', ''fa'', ''fal'', ''fals'', ''false'', ''n'', ''no'',
                           ''of'', ''off'', ''0'']
         then Inr False
         else Inl (Invalid_boolean s))"

definition bool_param :: "string option \<Rightarrow> store_error + bool option" where
  "bool_param v =
     (case v of
        None \<Rightarrow> Inr None
      | Some s \<Rightarrow> (case boolin s of Inl e \<Rightarrow> Inl e | Inr b \<Rightarrow> Inr (Some b)))"

subsection \<open>The five statements\<close>

text \<open>
  The statements that the route handlers send, each with positional parameters:
  \<^item> \<open>INSERT_todo\<close>: \<^verbatim>\<open>INSERT INTO todos (title, description, priority, category) VALUES ($1, $2, $3, $4) RETURNING *\<close>
  \<^item> \<open>SELECT_all\<close>: \<^verbatim>\<open>SELECT * FROM todos\<close>
  \<^item> \<open>SELECT_by_id\<close>: \<^verbatim>\<open>SELECT * FROM todos WHERE todo_id = $1\<close>
  \<^item> \<open>UPDATE_by_id\<close>: \<^verbatim>\<open>UPDATE todos SET title = $1, description = $2, priority = $3, category = $4, completed = $5 WHERE todo_id = $6\<close>
  \<^item> \<open>DELETE_by_id\<close>: \<^verbatim>\<open>DELETE FROM todos WHERE todo_id = $1\<close>
\<close>

datatype statement = INSERT_todo | SELECT_all | SELECT_by_id | UPDATE_by_id | DELETE_by_id

text \<open>A query gives the rows of its result (\<open>result.rows\<close>) or raises, and leaves a store.\<close>

type_synonym query_result = "(store_error + todo list) \<times> db"

type_synonym pool = "statement \<Rightarrow> jsval list \<Rightarrow> db \<Rightarrow> query_result"

text \<open>
  INSERT. All four columns are given explicitly, so the column defaults of \<open>priority\<close>
  and \<open>category\<close> never apply here: a NULL parameter is stored as NULL. The widths are
  checked first; then the key is drawn from the sequence (a draw is not undone when the
  statement fails afterwards); then NOT NULL and the primary key are checked.
  \<open>completed\<close> and \<open>created_at\<close> take their defaults.
\<close>

definition insert_todo ::
  "store_env \<Rightarrow> string option \<Rightarrow> string option \<Rightarrow> string option \<Rightarrow> string option \<Rightarrow> db \<Rightarrow> query_result"
where
  "insert_todo env p1 p2 p3 p4 d =
     (case varchar 255 p1 of Inl e \<Rightarrow> (Inl e, d) | Inr t \<Rightarrow>
      case varchar 255 p2 of Inl e \<Rightarrow> (Inl e, d) | Inr ds \<Rightarrow>
      case varchar 20 p3 of Inl e \<Rightarrow> (Inl e, d) | Inr p \<Rightarrow>
      case varchar 50 p4 of Inl e \<Rightarrow> (Inl e, d) | Inr c \<Rightarrow>
        if 2147483647 < seq_next d then (Inl Sequence_exhausted, d)
        else
          let new_id = seq_next d; d1 = d\<lparr>seq_next := new_id + 1\<rparr> in
          case t of None \<Rightarrow> (Inl (Not_null_violation ''title''), d1) | Some t' \<Rightarrow>
          case ds of None \<Rightarrow> (Inl (Not_null_violation ''description''), d1) | Some ds' \<Rightarrow>
            if new_id \<in> set (map todo_id (rows d)) then (Inl (Unique_violation new_id), d1)
            else
              let r = \<lparr>todo_id = new_id, title = t', description = ds', priority = p,
                       category = c, completed = Some False,
                       created_at = Some (current_timestamp env)\<rparr>
              in (Inr [r], d1\<lparr>rows := rows d @ [r]\<rparr>))"

text \<open>SELECT by key. The parameter is read as an integer; a NULL key matches no row.\<close>

definition select_by_id :: "string option \<Rightarrow> db \<Rightarrow> query_result" where
  "select_by_id p1 d =
     (case int4_param p1 of Inl e \<Rightarrow> (Inl e, d) | Inr key \<Rightarrow>
        (Inr (filter (\<lambda>r. Some (todo_id r) = key) (rows d)), d))"

text \<open>
  UPDATE by key. The parameters are converted to the column types before any row is
  looked at; NOT NULL is checked on the rows that are written, so it cannot fail when no
  row matches. The new version of a written row is listed last. The statement returns
  no rows.
\<close>

definition update_by_id ::
  "string option \<Rightarrow> string option \<Rightarrow> string option \<Rightarrow> string option \<Rightarrow> string option \<Rightarrow>
   string option \<Rightarrow> db \<Rightarrow> query_result"
where
  "update_by_id p1 p2 p3 p4 p5 p6 d =
     (case bool_param p5 of Inl e \<Rightarrow> (Inl e, d) | Inr done \<Rightarrow>
      case int4_param p6 of Inl e \<Rightarrow> (Inl e, d) | Inr key \<Rightarrow>
      case varchar 255 p1 of Inl e \<Rightarrow> (Inl e, d) | Inr t \<Rightarrow>
      case varchar 255 p2 of Inl e \<Rightarrow> (Inl e, d) | Inr ds \<Rightarrow>
      case varchar 20 p3 of Inl e \<Rightarrow> (Inl e, d) | Inr p \<Rightarrow>
      case varchar 50 p4 of Inl e \<Rightarrow> (Inl e, d) | Inr c \<Rightarrow>
        if filter (\<lambda>r. Some (todo_id r) = key) (rows d) = [] then (Inr [], d)
        else
          case t of None \<Rightarrow> (Inl (Not_null_violation ''title''), d) | Some t' \<Rightarrow>
          case ds of None \<Rightarrow> (Inl (Not_null_violation ''description''), d) | Some ds' \<Rightarrow>
            (Inr [],
             d\<lparr>rows :=
                 filter (\<lambda>r. Some (todo_id r) \<noteq> key) (rows d) @
                 map (\<lambda>r. r\<lparr>title := t', description := ds', priority := p,
                              category := c, completed := done\<rparr>)
                   (filter (\<lambda>r. Some (todo_id r) = key) (rows d))\<rparr>))"

text \<open>DELETE by key. The statement returns no rows.\<close>

definition delete_by_id :: "string option \<Rightarrow> db \<Rightarrow> query_result" where
  "delete_by_id p1 d =
     (case int4_param p1 of Inl e \<Rightarrow> (Inl e, d) | Inr key \<Rightarrow>
        (Inr [], d\<lparr>rows := filter (\<lambda>r. Some (todo_id r) \<noteq> key) (rows d)\<rparr>))"

text \<open>
  Text that holds the character U+0000 is refused by the store when it reads the
  parameters, whatever the column, before the statement runs.
\<close>

definition has_nul :: "jsval \<Rightarrow> bool" where
  "has_nul v = (case prepareValue v of None \<Rightarrow> False | Some s \<Rightarrow> CHR 0x00 \<in> set s)"

text \<open>
  \<open>pool.query(text, values)\<close> against this table: it fails without touching the store
  when the store cannot be reached or refuses a parameter, and runs the statement
  otherwise.
\<close>

fun run_statement :: "store_env \<Rightarrow> statement \<Rightarrow> jsval list \<Rightarrow> db \<Rightarrow> query_result" where
  "run_statement env INSERT_todo [v1, v2, v3, v4] d =
     insert_todo env (prepareValue v1) (prepareValue v2) (prepareValue v3) (prepareValue v4) d"
| "run_statement env SELECT_all [] d = (Inr (rows d), d)"
| "run_statement env SELECT_by_id [v1] d = select_by_id (prepareValue v1) d"
| "run_statement env UPDATE_by_id [v1, v2, v3, v4, v5, v6] d =
     update_by_id (prepareValue v1) (prepareValue v2) (prepareValue v3) (prepareValue v4)
       (prepareValue v5) (prepareValue v6) d"
| "run_statement env DELETE_by_id [v1] d = delete_by_id (prepareValue v1) d"
| "run_statement env s vs d = (Inl Bad_parameters, d)"

definition pool_query :: "store_env \<Rightarrow> pool" where
  "pool_query env s vs d =
     (if \<not> connected env then (Inl Connection_failure, d)
      else if list_ex has_nul vs then (Inl Invalid_byte_sequence, d)
      else run_statement env s vs d)"

section \<open>The HTTP API: five route handlers\<close>

datatype res_body =
    Empty_body
  | Text string
  | Json_todo todo
  | Json_todos "todo list"
  | Json_message string

type_synonym response = "nat \<times> res_body"

text \<open>
  A handler gives the response, what it wrote with \<open>console.error\<close>, and the store
  after the request. The source reads the pool from a module-level variable; here it is
  the first argument of each handler, so that a handler can be run against any pool.
\<close>

type_synonym handled = "response \<times> store_error list \<times> db"

text \<open>The \<open>catch\<close> block, the same in all five handlers.\<close>

definition catch_block :: "store_error \<Rightarrow> db \<Rightarrow> handled" where
  "catch_block err d = ((500, Text ''Server Error''), [err], d)"

text \<open>\<open>res.json(result.rows[0])\<close>: no first row is \<open>undefined\<close>, which is sent as an empty body.\<close>

definition res_json_first :: "todo list \<Rightarrow> response" where
  "res_json_first rs = (case rs of [] \<Rightarrow> (200, Empty_body) | r # _ \<Rightarrow> (200, Json_todo r))"

text \<open>A destructuring default (\<open>priority = 'medium'\<close>): it replaces \<open>undefined\<close> only.\<close>

definition default_to :: "string \<Rightarrow> jsval \<Rightarrow> jsval" where
  "default_to dflt v = (case v of JUndefined \<Rightarrow> JStr dflt | _ \<Rightarrow> v)"

text \<open>
  Create: \<open>const { title, description, priority = 'medium', category = 'general' } = req.body\<close>
  and the parameter list \<open>[title, description, priority, category]\<close>.
\<close>

definition create_params :: "js_object \<Rightarrow> jsval list" where
  "create_params req_body =
     [req_body ''title'', req_body ''description'',
      default_to ''medium'' (req_body ''priority''),
      default_to ''general'' (req_body ''category'')]"

definition post_todos :: "pool \<Rightarrow> js_object \<Rightarrow> db \<Rightarrow> handled" where
  "post_todos query req_body d =
     (case query INSERT_todo (create_params req_body) d of
        (Inr new_rows, d') \<Rightarrow> (res_json_first new_rows, [], d')
      | (Inl err, d') \<Rightarrow> catch_block err d')"

definition get_todos :: "pool \<Rightarrow> db \<Rightarrow> handled" where
  "get_todos query d =
     (case query SELECT_all [] d of
        (Inr all_rows, d') \<Rightarrow> ((200, Json_todos all_rows), [], d')
      | (Inl err, d') \<Rightarrow> catch_block err d')"

definition get_todo_by_id :: "pool \<Rightarrow> string \<Rightarrow> db \<Rightarrow> handled" where
  "get_todo_by_id query id_param d =
     (case query SELECT_by_id [JStr id_param] d of
        (Inr found, d') \<Rightarrow> (res_json_first found, [], d')
      | (Inl err, d') \<Rightarrow> catch_block err d')"

text \<open>
  Update: \<open>const { title, description, priority, category, completed } = req.body\<close> and
  the parameter list \<open>[title, description, priority, category, completed, id]\<close>.
\<close>

definition update_params :: "string \<Rightarrow> js_object \<Rightarrow> jsval list" where
  "update_params id_param req_body =
     [req_body ''title'', req_body ''description'', req_body ''priority'',
      req_body ''category'', req_body ''completed'', JStr id_param]"

definition put_todo_by_id :: "pool \<Rightarrow> string \<Rightarrow> js_object \<Rightarrow> db \<Rightarrow> handled" where
  "put_todo_by_id query id_param req_body d =
     (case query UPDATE_by_id (update_params id_param req_body) d of
        (Inr _, d') \<Rightarrow> ((200, Json_message ''Todo updated successfully''), [], d')
      | (Inl err, d') \<Rightarrow> catch_block err d')"

definition delete_todo_by_id :: "pool \<Rightarrow> string \<Rightarrow> db \<Rightarrow> handled" where
  "delete_todo_by_id query id_param d =
     (case query DELETE_by_id [JStr id_param] d of
        (Inr _, d') \<Rightarrow> ((200, Json_message ''Todo deleted successfully''), [], d')
      | (Inl err, d') \<Rightarrow> catch_block err d')"

text \<open>The parts of a handled request.\<close>

definition response_of :: "handled \<Rightarrow> response" where
  "response_of h = fst h"

definition logged_of :: "handled \<Rightarrow> store_error list" where
  "logged_of h = fst (snd h)"

definition store_of :: "handled \<Rightarrow> db" where
  "store_of h = snd (snd h)"

text \<open>
  The path of one todo, as callers build it (\<^verbatim>\<open>`/todos/${id}`\<close>): the key in decimal.
\<close>

fun decimal :: "nat \<Rightarrow> string" where
  "decimal n =
     (if n < 10 then [char_of (48 + n)] else decimal (n div 10) @ [char_of (48 + n mod 10)])"

declare decimal.simps [simp del]

definition number_toString :: "int \<Rightarrow> string" where
  "number_toString i = (if i < 0 then CHR ''-'' # decimal (nat (- i)) else decimal (nat i))"

text \<open>Several Create requests, one after the other, each in its own circumstances.\<close>

fun create_all :: "(store_env \<times> js_object) list \<Rightarrow> db \<Rightarrow> response list \<times> db" where
  "create_all [] d = ([], d)"
| "create_all ((env, b) # reqs) d =
     (let h = post_todos (pool_query env) b d;
          (rest, d') = create_all reqs (store_of h)
      in (response_of h # rest, d'))"

section \<open>The UI state container\<close>

text \<open>
  The state of the \<open>App\<close> component: the fetched list, the loading flag, the error
  message (\<open>null\<close> is \<open>None\<close>) and the three filter criteria.
\<close>

record app_state =
  todos :: "todo list"
  loading :: bool
  error :: "string option"
  searchTerm :: string
  filterPriority :: string
  filterCategory :: string

definition initial_state :: app_state where
  "initial_state =
     \<lparr>todos = [], loading = True, error = None, searchTerm = [],
      filterPriority = ''all'', filterCategory = ''all''\<rparr>"

text \<open>How a call of the client API gateway ends: with the decoded body, or rejected.\<close>

datatype 'a promise = Resolved 'a | Rejected

text \<open>
  \<open>fetchTodos\<close>: sets the loading flag and clears the error before the call; stores the
  list sorted by descending key, or the fetch message; clears the loading flag at the end.
\<close>

definition fetchTodos :: "todo list promise \<Rightarrow> app_state \<Rightarrow> app_state" where
  "fetchTodos outcome st =
     (let st1 = st\<lparr>loading := True, error := None\<rparr>;
          st2 = (case outcome of
                   Resolved allTodos \<Rightarrow> st1\<lparr>todos := sort_key (\<lambda>t. - todo_id t) allTodos\<rparr>
                 | Rejected \<Rightarrow>
                     st1\<lparr>error :=
                       Some ''Failed to fetch todos. Please check if the server is running.''\<rparr>)
      in st2\<lparr>loading := False\<rparr>)"

definition addTodo :: "todo promise \<Rightarrow> app_state \<Rightarrow> app_state" where
  "addTodo outcome st =
     (case outcome of
        Resolved newTodo \<Rightarrow> st\<lparr>todos := newTodo # todos st\<rparr>
      | Rejected \<Rightarrow> st\<lparr>error := Some ''Failed to create todo. Please try again.''\<rparr>)"

definition markAsDone :: "int \<Rightarrow> unit promise \<Rightarrow> app_state \<Rightarrow> app_state" where
  "markAsDone todoId outcome st =
     (case outcome of
        Resolved _ \<Rightarrow> st\<lparr>todos := filter (\<lambda>t. todo_id t \<noteq> todoId) (todos st)\<rparr>
      | Rejected \<Rightarrow> st\<lparr>error := Some ''Failed to mark todo as done. Please try again.''\<rparr>)"

text \<open>
  \<open>toLowerCase\<close>: among the characters 0 to 255 the upper-case letters are A to Z
  (65 to 90) and the accented capitals 192 to 222 without the multiplication sign 215;
  each has its lower-case letter 32 places further.
\<close>

definition js_to_lower :: "char \<Rightarrow> char" where
  "js_to_lower c =
     (let n = (of_char c :: nat)
      in if (65 \<le> n \<and> n \<le> 90) \<or> (192 \<le> n \<and> n \<le> 214) \<or> (216 \<le> n \<and> n \<le> 222)
         then char_of (n + 32) else c)"

definition toLowerCase :: "string \<Rightarrow> string" where
  "toLowerCase s = map js_to_lower s"

text \<open>\<open>s.includes(t)\<close>: \<open>t\<close> occurs in \<open>s\<close> at some position.\<close>

fun js_includes :: "string \<Rightarrow> string \<Rightarrow> bool" where
  "js_includes [] t = (t = [])"
| "js_includes (c # s) t = (prefix t (c # s) \<or> js_includes s t)"

text \<open>\<open>v || dflt\<close> on a nullable string: \<open>null\<close> and the empty string are both falsy.\<close>

definition or_default :: "string option \<Rightarrow> string \<Rightarrow> string" where
  "or_default v dflt = (case v of None \<Rightarrow> dflt | Some s \<Rightarrow> if s = [] then dflt else s)"

definition filteredTodos :: "app_state \<Rightarrow> todo list" where
  "filteredTodos st =
     filter
       (\<lambda>todo.
          let matchesSearch =
                (js_includes (toLowerCase (title todo)) (toLowerCase (searchTerm st)) \<or>
                 js_includes (toLowerCase (description todo)) (toLowerCase (searchTerm st)));
              matchesPriority =
                (filterPriority st = ''all'' \<or>
                 or_default (priority todo) ''medium'' = filterPriority st);
              matchesCategory =
                (filterCategory st = ''all'' \<or>
                 or_default (category todo) ''general'' = filterCategory st)
          in matchesSearch \<and> matchesPriority \<and> matchesCategory)
       (todos st)"

text \<open>The counter in the list header: \<open>{filteredTodos.length} found\<close>.\<close>

definition found_count :: "app_state \<Rightarrow> nat" where
  "found_count st = length (filteredTodos st)"

text \<open>
  What the list view is given: nothing while loading (a spinner is shown instead),
  \<open>filteredTodos.slice(0, 5)\<close> otherwise.
\<close>

definition list_view :: "app_state \<Rightarrow> todo list option" where
  "list_view st = (if loading st then None else Some (take 5 (filteredTodos st)))"

section \<open>Notions of the specification\<close>

text \<open>
  The following definitions are not code of the program: they phrase what the
  specification says, to be compared with the program.
\<close>

text \<open>The key invariant of the table: keys are unique and below the sequence, which starts at 1.\<close>

definition db_ok :: "db \<Rightarrow> bool" where
  "db_ok d =
     (distinct (map todo_id (rows d)) \<and> 1 \<le> seq_next d \<and>
      list_all (\<lambda>r. todo_id r < seq_next d) (rows d))"

text \<open>A conversion that the store accepts, and a value whose text is no wider than \<open>n\<close>.\<close>

definition accepted :: "store_error + 'a \<Rightarrow> bool" where
  "accepted x = (case x of Inl _ \<Rightarrow> False | Inr _ \<Rightarrow> True)"


text \<open>The values that the four Create parameters are made from hold no U+0000.\<close>

definition create_text_clean :: "js_object \<Rightarrow> bool" where
  "create_text_clean b =
     (\<not> has_nul (b ''title'') \<and> \<not> has_nul (b ''description'') \<and>
      \<not> has_nul (b ''priority'') \<and> \<not> has_nul (b ''category''))"

text \<open>
  An Update body whose values the store can convert to the column types; the store
  converts them whether or not a row matches.
\<close>

definition update_values_accepted :: "js_object \<Rightarrow> bool" where
  "update_values_accepted b =
     (\<not> has_nul (b ''title'') \<and> \<not> has_nul (b ''description'') \<and>
      \<not> has_nul (b ''priority'') \<and> \<not> has_nul (b ''category'') \<and>
      \<not> has_nul (b ''completed'') \<and>
      accepted (bool_param (prepareValue (b ''completed''))) \<and>
      accepted (varchar 255 (prepareValue (b ''title''))) \<and>
      accepted (varchar 255 (prepareValue (b ''description''))) \<and>
      accepted (varchar 20 (prepareValue (b ''priority''))) \<and>
      accepted (varchar 50 (prepareValue (b ''category''))))"

text \<open>A string value of at most \<open>n\<close> characters, none of them U+0000.\<close>

definition text_fits :: "nat \<Rightarrow> jsval \<Rightarrow> bool" where
  "text_fits n v =
     (case v of JStr s \<Rightarrow> length s \<le> n \<and> CHR 0x00 \<notin> set s | _ \<Rightarrow> False)"

text \<open>
  A valid Create body \<open>{title, description, priority?, category?}\<close>: strings without
  U+0000 that fit the columns, the last two possibly omitted.
\<close>

definition valid_create_body :: "js_object \<Rightarrow> bool" where
  "valid_create_body b =
     (text_fits 255 (b ''title'') \<and> text_fits 255 (b ''description'') \<and>
      (b ''priority'' = JUndefined \<or> text_fits 20 (b ''priority'')) \<and>
      (b ''category'' = JUndefined \<or> text_fits 50 (b ''category'')))"

text \<open>The text of a body value, and the record that Create is expected to store for a body.\<close>

definition text_of :: "jsval \<Rightarrow> string" where
  "text_of v = (case prepareValue v of None \<Rightarrow> [] | Some s \<Rightarrow> s)"

definition expected_row :: "int \<Rightarrow> store_env \<Rightarrow> js_object \<Rightarrow> todo" where
  "expected_row k env b =
     \<lparr>todo_id = k, title = text_of (b ''title''), description = text_of (b ''description''),
      priority = Some (if b ''priority'' = JUndefined then ''medium'' else text_of (b ''priority'')),
      category = Some (if b ''category'' = JUndefined then ''general'' else text_of (b ''category'')),
      completed = Some False, created_at = Some (current_timestamp env)\<rparr>"

text \<open>The records that a series of responses carries: the todos created.\<close>

fun created_records :: "response list \<Rightarrow> todo list" where
  "created_records [] = []"
| "created_records ((st, Json_todo r) # resps) =
     (if st = 200 then r # created_records resps else created_records resps)"
| "created_records (_ # resps) = created_records resps"

text \<open>
  The visible list as the specification words it: a todo is kept when the search term
  occurs in its title or description regardless of case, and each filter that is set
  equals the todo's value. \<open>absent\<close> says which stored values count as the default.
\<close>

definition absent_null :: "string option \<Rightarrow> bool" where
  "absent_null v = (v = None)"

definition absent_null_or_empty :: "string option \<Rightarrow> bool" where
  "absent_null_or_empty v = (v = None \<or> v = Some [])"

definition spec_value :: "(string option \<Rightarrow> bool) \<Rightarrow> string \<Rightarrow> string option \<Rightarrow> string" where
  "spec_value absent dflt v = (if absent v then dflt else (case v of Some s \<Rightarrow> s | None \<Rightarrow> dflt))"

definition spec_matches :: "(string option \<Rightarrow> bool) \<Rightarrow> app_state \<Rightarrow> todo \<Rightarrow> bool" where
  "spec_matches absent st t =
     ((sublist (toLowerCase (searchTerm st)) (toLowerCase (title t)) \<or>
       sublist (toLowerCase (searchTerm st)) (toLowerCase (description t))) \<and>
      (filterPriority st = ''all'' \<or> spec_value absent ''medium'' (priority t) = filterPriority st) \<and>
      (filterCategory st = ''all'' \<or> spec_value absent ''general'' (category t) = filterCategory st))"

section \<open>Example inputs\<close>

text \<open>A reachable and an unreachable store, and the request of the specification's scenario.\<close>

definition online :: store_env where
  "online = \<lparr>connected = True, current_timestamp = 7\<rparr>"

definition offline :: store_env where
  "offline = \<lparr>connected = False, current_timestamp = 7\<rparr>"

definition buy_milk :: js_object where
  "buy_milk =
     empty_object(''title'' := JStr ''Buy milk'', ''description'' := JStr ''2%'',
       ''priority'' := JStr ''low'', ''category'' := JStr ''shopping'')"

definition title_and_description :: js_object where
  "title_and_description =
     empty_object(''title'' := JStr ''Minimal Todo'', ''description'' := JStr ''Minimal test todo'')"

definition description_only :: js_object where
  "description_only = empty_object(''description'' := JStr ''Missing title'')"

definition blank_todo :: js_object where
  "blank_todo = empty_object(''title'' := JStr [], ''description'' := JStr [])"

text \<open>
  Bodies outside the columns: a title of 255 letters and a space, a title that holds
  U+0000; and bodies without a title whose priority has 21 characters or whose
  description holds U+0000. A table whose sequence is used up.
\<close>

definition spaced_title :: js_object where
  "spaced_title = buy_milk(''title'' := JStr (replicate 255 (CHR ''a'') @ '' ''))"

definition nul_title :: js_object where
  "nul_title = buy_milk(''title'' := JStr [CHR ''a'', CHR 0x00, CHR ''b''])"

definition wide_priority :: js_object where
  "wide_priority = description_only(''priority'' := JStr ''abcdefghijklmnopqrstu'')"

definition nul_description :: js_object where
  "nul_description = empty_object(''description'' := JStr [CHR ''a'', CHR 0x00, CHR ''b''])"

definition used_up :: db where
  "used_up = \<lparr>rows = [], seq_next = 2147483648\<rparr>"

text \<open>Three todos as the client holds them, newest first; the oldest has an empty priority.\<close>

definition three :: "todo list" where
  "three =
     [\<lparr>todo_id = 3, title = ''Gym'', description = ''Leg day'', priority = Some ''high'',
        category = Some ''health'', completed = Some False, created_at = Some 3\<rparr>,
      \<lparr>todo_id = 2, title = ''Report'', description = ''Quarterly numbers'',
        priority = Some ''high'', category = Some ''work'', completed = Some False,
        created_at = Some 2\<rparr>,
      \<lparr>todo_id = 1, title = ''Buy milk'', description = ''2%'', priority = Some [],
        category = None, completed = Some False, created_at = Some 1\<rparr>]"

section \<open>Store failures become the fixed error response\<close>

lemma catch_block_response:
  "response_of (catch_block err d) = (500, Text ''Server Error'') \<and>
   logged_of (catch_block err d) = [err]"
  by (simp add: catch_block_def response_of_def logged_of_def)

text \<open>
  C4. Whatever the pool is, when the query that a handler sends fails with an error, the
  handler answers with status 500 and the body "Server Error", and the error goes to the
  console only. This holds for each of the five handlers. A handler is a total function
  into responses, so no failure leaves it in another way.
\<close>

theorem store_failure_gives_server_error:
  "(fst (query INSERT_todo (create_params b) d) = Inl err \<longrightarrow>
      response_of (post_todos query b d) = (500, Text ''Server Error'') \<and>
      logged_of (post_todos query b d) = [err]) \<and>
   (fst (query SELECT_all [] d) = Inl err \<longrightarrow>
      response_of (get_todos query d) = (500, Text ''Server Error'') \<and>
      logged_of (get_todos query d) = [err]) \<and>
   (fst (query SELECT_by_id [JStr i] d) = Inl err \<longrightarrow>
      response_of (get_todo_by_id query i d) = (500, Text ''Server Error'') \<and>
      logged_of (get_todo_by_id query i d) = [err]) \<and>
   (fst (query UPDATE_by_id (update_params i b) d) = Inl err \<longrightarrow>
      response_of (put_todo_by_id query i b d) = (500, Text ''Server Error'') \<and>
      logged_of (put_todo_by_id query i b d) = [err]) \<and>
   (fst (query DELETE_by_id [JStr i] d) = Inl err \<longrightarrow>
      response_of (delete_todo_by_id query i d) = (500, Text ''Server Error'') \<and>
      logged_of (delete_todo_by_id query i d) = [err])"
proof -
  have post: "fst (query INSERT_todo (create_params b) d) = Inl err \<Longrightarrow>
      post_todos query b d = catch_block err (snd (query INSERT_todo (create_params b) d))"
    by (cases "query INSERT_todo (create_params b) d") (simp add: post_todos_def)
  have list: "fst (query SELECT_all [] d) = Inl err \<Longrightarrow>
      get_todos query d = catch_block err (snd (query SELECT_all [] d))"
    by (cases "query SELECT_all [] d") (simp add: get_todos_def)
  have get: "fst (query SELECT_by_id [JStr i] d) = Inl err \<Longrightarrow>
      get_todo_by_id query i d = catch_block err (snd (query SELECT_by_id [JStr i] d))"
    by (cases "query SELECT_by_id [JStr i] d") (simp add: get_todo_by_id_def)
  have put: "fst (query UPDATE_by_id (update_params i b) d) = Inl err \<Longrightarrow>
      put_todo_by_id query i b d =
        catch_block err (snd (query UPDATE_by_id (update_params i b) d))"
    by (cases "query UPDATE_by_id (update_params i b) d") (simp add: put_todo_by_id_def)
  have del: "fst (query DELETE_by_id [JStr i] d) = Inl err \<Longrightarrow>
      delete_todo_by_id query i d = catch_block err (snd (query DELETE_by_id [JStr i] d))"
    by (cases "query DELETE_by_id [JStr i] d") (simp add: delete_todo_by_id_def)
  show ?thesis
    using post list get put del by (simp add: catch_block_response)
qed

theorem store_failure_gives_server_error_witness:
  "fst (pool_query offline INSERT_todo (create_params buy_milk) init_db) =
     Inl Connection_failure \<and>
   fst (pool_query offline SELECT_all [] init_db) = Inl Connection_failure \<and>
   fst (pool_query offline SELECT_by_id [JStr ''1''] init_db) = Inl Connection_failure \<and>
   fst (pool_query offline UPDATE_by_id (update_params ''1'' buy_milk) init_db) =
     Inl Connection_failure \<and>
   fst (pool_query offline DELETE_by_id [JStr ''1''] init_db) = Inl Connection_failure \<and>
   response_of (post_todos (pool_query offline) buy_milk init_db) =
     (500, Text ''Server Error'') \<and>
   response_of (get_todos (pool_query offline) init_db) = (500, Text ''Server Error'') \<and>
   response_of (get_todo_by_id (pool_query offline) ''1'' init_db) =
     (500, Text ''Server Error'') \<and>
   response_of (put_todo_by_id (pool_query offline) ''1'' buy_milk init_db) =
     (500, Text ''Server Error'') \<and>
   response_of (delete_todo_by_id (pool_query offline) ''1'' init_db) =
     (500, Text ''Server Error'')"
proof -
  have down: "\<And>s vs. fst (pool_query offline s vs init_db) = Inl Connection_failure"
    by (simp add: pool_query_def offline_def)
  from store_failure_gives_server_error
    [of "pool_query offline" buy_milk init_db Connection_failure "''1''"] down
  show ?thesis by simp
qed

section \<open>The error message of the UI state container\<close>

lemma failed_operation_message:
  "error (fetchTodos Rejected st) =
     Some ''Failed to fetch todos. Please check if the server is running.'' \<and>
   error (addTodo Rejected st) = Some ''Failed to create todo. Please try again.'' \<and>
   error (markAsDone k Rejected st) = Some ''Failed to mark todo as done. Please try again.''"
  by (simp add: fetchTodos_def addTodo_def markAsDone_def)

lemma fetch_clears_error: "error (fetchTodos (Resolved ts) st) = None"
  by (simp add: fetchTodos_def)

text \<open>
  C8. A successful create or delete leaves the stored error message as it was: only a
  fetch clears it. After a failed fetch, a successful create still shows the fetch
  message.
\<close>

theorem success_keeps_error_message:
  "error (addTodo (Resolved t) st) = error st \<and>
   error (markAsDone k (Resolved u) st) = error st \<and>
   error (addTodo (Resolved t) (fetchTodos Rejected initial_state)) =
     Some ''Failed to fetch todos. Please check if the server is running.''"
  by (simp add: addTodo_def markAsDone_def fetchTodos_def)

section \<open>The list view shows five entries at most\<close>

text \<open>
  C10. Once loading is over, the list view is given the first five entries of the
  filtered list and never more, while the counter shows the length of the whole filtered
  list; with more than five matches exactly five are shown. While loading, the list view
  is not rendered.
\<close>

theorem list_view_at_most_five:
  "(loading st \<longrightarrow> list_view st = None) \<and>
   (\<not> loading st \<longrightarrow>
      (\<exists>shown. list_view st = Some shown \<and> shown = take 5 (filteredTodos st) \<and>
         length shown \<le> 5 \<and> length shown = min 5 (found_count st) \<and>
         (5 < found_count st \<longrightarrow> length shown = 5)))"
  by (auto simp: list_view_def found_count_def)

theorem list_view_at_most_five_witness:
  "\<not> loading (initial_state\<lparr>loading := False,
       todos := map (\<lambda>k. expected_row k \<lparr>connected = True, current_timestamp = 0\<rparr> empty_object)
                  [6, 5, 4, 3, 2, 1, 0]\<rparr>) \<and>
   found_count (initial_state\<lparr>loading := False,
       todos := map (\<lambda>k. expected_row k \<lparr>connected = True, current_timestamp = 0\<rparr> empty_object)
                  [6, 5, 4, 3, 2, 1, 0]\<rparr>) = 7 \<and>
   map_option (map todo_id) (list_view (initial_state\<lparr>loading := False,
       todos := map (\<lambda>k. expected_row k \<lparr>connected = True, current_timestamp = 0\<rparr> empty_object)
                  [6, 5, 4, 3, 2, 1, 0]\<rparr>)) = Some [6, 5, 4, 3, 2]"
  using list_view_at_most_five
    [of "initial_state\<lparr>loading := False,
       todos := map (\<lambda>k. expected_row k \<lparr>connected = True, current_timestamp = 0\<rparr> empty_object)
                  [6, 5, 4, 3, 2, 1, 0]\<rparr>"]
  by (simp add: list_view_def found_count_def filteredTodos_def initial_state_def
      expected_row_def empty_object_def toLowerCase_def or_default_def text_of_def)

section \<open>Evaluating the model on concrete inputs\<close>

lemmas store_eval =
  pool_query_def has_nul_def insert_todo_def select_by_id_def update_by_id_def delete_by_id_def
  varchar_def int4_param_def bool_param_def int4in_def boolin_def is_space_def is_digit_def
  digits_value_def digit_value_def to_lower_def Let_def

lemmas handler_eval =
  post_todos_def get_todos_def get_todo_by_id_def put_todo_by_id_def delete_todo_by_id_def
  create_params_def update_params_def default_to_def res_json_first_def catch_block_def
  response_of_def logged_of_def store_of_def

lemmas example_eval =
  online_def offline_def buy_milk_def title_and_description_def description_only_def
  blank_todo_def spaced_title_def nul_title_def wide_priority_def nul_description_def
  used_up_def empty_object_def init_db_def

lemma number_toString_1: "number_toString 1 = ''1''"
  by code_simp

section \<open>A key printed in decimal is read back by the store\<close>

lemma varchar_fits: "length s \<le> n \<Longrightarrow> varchar n (Some s) = Inr (Some s)"
  by (simp add: varchar_def)

lemma varchar_null: "varchar n None = Inr None"
  by (simp add: varchar_def)

lemma is_digit_char_of: "(d::nat) < 10 \<Longrightarrow> is_digit (char_of (48 + d))"
  by (simp add: is_digit_def)

lemma digit_value_char_of: "d < 10 \<Longrightarrow> digit_value (char_of (48 + d)) = d"
  by (simp add: digit_value_def)

lemma digit_not_space: "is_digit c \<Longrightarrow> \<not> is_space c"
  by (auto simp: is_digit_def is_space_def)

lemma digit_not_sign: "is_digit c \<Longrightarrow> c \<noteq> CHR ''-'' \<and> c \<noteq> CHR ''+''"
  by (auto simp: is_digit_def)

lemma decimal_digits: "list_all is_digit (decimal n)"
proof (induction n rule: decimal.induct)
  case (1 n)
  show ?case
  proof (cases "n < 10")
    case True
    then show ?thesis by (subst decimal.simps) (simp add: is_digit_char_of)
  next
    case False
    with 1 show ?thesis by (subst decimal.simps) (simp add: is_digit_char_of)
  qed
qed

lemma decimal_not_Nil: "decimal n \<noteq> []"
  by (subst decimal.simps) simp

lemma digits_value_snoc: "digits_value (ds @ [c]) = 10 * digits_value ds + digit_value c"
  by (simp add: digits_value_def)

lemma digits_value_decimal: "digits_value (decimal n) = n"
proof (induction n rule: decimal.induct)
  case (1 n)
  show ?case
  proof (cases "n < 10")
    case True
    then show ?thesis
      by (subst decimal.simps) (simp add: digits_value_def digit_value_char_of)
  next
    case False
    with 1 have "digits_value (decimal (n div 10)) = n div 10" by simp
    with False show ?thesis
      by (subst decimal.simps) (simp add: digits_value_snoc digit_value_char_of)
  qed
qed

lemma takeWhile_all: "list_all P xs \<Longrightarrow> takeWhile P xs = xs"
  by (induction xs) auto

lemma dropWhile_all: "list_all P xs \<Longrightarrow> dropWhile P xs = []"
  by (induction xs) auto

lemma int4in_digits:
  assumes "list_all is_digit ds" "ds \<noteq> []" "int (digits_value ds) \<le> 2147483647"
  shows "int4in ds = Inr (int (digits_value ds))"
proof -
  from assms obtain c cs where ds: "ds = c # cs" by (cases ds) auto
  with assms have c: "is_digit c" by simp
  then have "\<not> is_space c" "c \<noteq> CHR ''-''" "c \<noteq> CHR ''+''"
    using digit_not_space digit_not_sign by auto
  then show ?thesis using assms
    by (simp add: int4in_def ds Let_def takeWhile_all dropWhile_all)
qed

lemma int4in_minus_digits:
  assumes "list_all is_digit ds" "ds \<noteq> []" "int (digits_value ds) \<le> 2147483648"
  shows "int4in (CHR ''-'' # ds) = Inr (- int (digits_value ds))"
  using assms
  by (simp add: int4in_def Let_def takeWhile_all dropWhile_all is_space_def)

lemma int4in_number_toString:
  assumes "- 2147483648 \<le> i" "i \<le> 2147483647"
  shows "int4in (number_toString i) = Inr i"
proof (cases "i < 0")
  case True
  with assms show ?thesis
    using int4in_minus_digits[of "decimal (nat (- i))"]
    by (simp add: number_toString_def decimal_digits decimal_not_Nil digits_value_decimal)
next
  case False
  with assms show ?thesis
    using int4in_digits[of "decimal (nat i)"]
    by (simp add: number_toString_def decimal_digits decimal_not_Nil digits_value_decimal)
qed

section \<open>Create on a valid body\<close>

lemma text_fitsD:
  "text_fits n v \<Longrightarrow> \<exists>s. v = JStr s \<and> length s \<le> n \<and> CHR 0x00 \<notin> set s"
  by (cases v) (simp_all add: text_fits_def)

lemma text_fits_clean: "text_fits n v \<Longrightarrow> \<not> has_nul v"
  by (cases v) (simp_all add: text_fits_def has_nul_def)

lemma default_clean:
  "\<not> has_nul v \<Longrightarrow> CHR 0x00 \<notin> set dflt \<Longrightarrow> \<not> has_nul (default_to dflt v)"
  by (cases v) (simp_all add: has_nul_def default_to_def)

lemma undefined_clean: "\<not> has_nul JUndefined"
  by (simp add: has_nul_def)

lemma clean_params:
  "create_text_clean b \<Longrightarrow> \<not> list_ex has_nul (create_params b)"
  by (simp add: create_text_clean_def create_params_def default_clean)

lemma valid_body_clean:
  assumes "valid_create_body b"
  shows "create_text_clean b"
  using assms
  by (auto simp: valid_create_body_def create_text_clean_def text_fits_clean undefined_clean)

lemma db_ok_fresh: "db_ok d \<Longrightarrow> seq_next d \<notin> set (map todo_id (rows d))"
  by (auto simp: db_ok_def list_all_iff)

lemma valid_body_params:
  assumes "valid_create_body b"
  shows "varchar 255 (prepareValue (b ''title'')) = Inr (Some (text_of (b ''title''))) \<and>
         varchar 255 (prepareValue (b ''description'')) = Inr (Some (text_of (b ''description''))) \<and>
         varchar 20 (prepareValue (default_to ''medium'' (b ''priority''))) =
           Inr (Some (if b ''priority'' = JUndefined then ''medium'' else text_of (b ''priority''))) \<and>
         varchar 50 (prepareValue (default_to ''general'' (b ''category''))) =
           Inr (Some (if b ''category'' = JUndefined then ''general'' else text_of (b ''category'')))"
proof -
  from assms obtain t where t: "b ''title'' = JStr t" "length t \<le> 255"
    using text_fitsD by (auto simp: valid_create_body_def)
  from assms obtain ds where ds: "b ''description'' = JStr ds" "length ds \<le> 255"
    using text_fitsD by (auto simp: valid_create_body_def)
  from assms have p: "b ''priority'' = JUndefined \<or> (\<exists>s. b ''priority'' = JStr s \<and> length s \<le> 20)"
    using text_fitsD by (auto simp: valid_create_body_def)
  from assms have c: "b ''category'' = JUndefined \<or> (\<exists>s. b ''category'' = JStr s \<and> length s \<le> 50)"
    using text_fitsD by (auto simp: valid_create_body_def)
  have 1: "varchar 255 (prepareValue (b ''title'')) = Inr (Some (text_of (b ''title'')))"
    using t by (simp add: varchar_fits text_of_def)
  have 2: "varchar 255 (prepareValue (b ''description'')) = Inr (Some (text_of (b ''description'')))"
    using ds by (simp add: varchar_fits text_of_def)
  have 3: "varchar 20 (prepareValue (default_to ''medium'' (b ''priority''))) =
           Inr (Some (if b ''priority'' = JUndefined then ''medium'' else text_of (b ''priority'')))"
    using p by (auto simp: varchar_fits text_of_def default_to_def)
  have 4: "varchar 50 (prepareValue (default_to ''general'' (b ''category''))) =
           Inr (Some (if b ''category'' = JUndefined then ''general'' else text_of (b ''category'')))"
    using c by (auto simp: varchar_fits text_of_def default_to_def)
  from 1 2 3 4 show ?thesis by simp
qed

text \<open>A Create request whose parameters the store reads runs the INSERT.\<close>

lemma post_todos_insert:
  assumes "connected env" "create_text_clean b"
  shows "post_todos (pool_query env) b d =
           (case insert_todo env (prepareValue (b ''title'')) (prepareValue (b ''description''))
                   (prepareValue (default_to ''medium'' (b ''priority'')))
                   (prepareValue (default_to ''general'' (b ''category''))) d of
              (Inr new_rows, d') \<Rightarrow> (res_json_first new_rows, [], d')
            | (Inl err, d') \<Rightarrow> catch_block err d')"
  using assms(1) clean_params[OF assms(2)]
  by (simp add: post_todos_def pool_query_def create_params_def)

lemma post_todos_refused:
  assumes "\<not> connected env \<or> \<not> create_text_clean b"
  shows "post_todos (pool_query env) b d =
           catch_block (if connected env then Invalid_byte_sequence else Connection_failure) d"
proof (cases "connected env")
  case False
  then show ?thesis by (simp add: post_todos_def pool_query_def)
next
  case True
  with assms have "\<not> create_text_clean b" by simp
  then have "list_ex has_nul (create_params b)"
    by (cases "b ''priority''"; cases "b ''category''")
       (auto simp: create_text_clean_def create_params_def default_to_def has_nul_def)
  with True show ?thesis by (simp add: post_todos_def pool_query_def)
qed

lemma post_valid:
  assumes "valid_create_body b" "connected env" "db_ok d" "seq_next d \<le> 2147483647"
  shows "post_todos (pool_query env) b d =
           ((200, Json_todo (expected_row (seq_next d) env b)), [],
            d\<lparr>rows := rows d @ [expected_row (seq_next d) env b], seq_next := seq_next d + 1\<rparr>)"
proof -
  have "insert_todo env (prepareValue (b ''title'')) (prepareValue (b ''description''))
          (prepareValue (default_to ''medium'' (b ''priority'')))
          (prepareValue (default_to ''general'' (b ''category''))) d =
        (Inr [expected_row (seq_next d) env b],
         d\<lparr>rows := rows d @ [expected_row (seq_next d) env b], seq_next := seq_next d + 1\<rparr>)"
    using valid_body_params[OF assms(1)] db_ok_fresh[OF assms(3)] assms(4)
    by (simp add: insert_todo_def expected_row_def Let_def)
  then show ?thesis
    using post_todos_insert[OF assms(2) valid_body_clean[OF assms(1)], of d]
    by (simp add: res_json_first_def)
qed

lemma expected_row_id: "todo_id (expected_row k env b) = k"
  by (simp add: expected_row_def)

lemma filter_no_key:
  "k \<notin> set (map todo_id rs) \<Longrightarrow> filter (\<lambda>x. todo_id x = k) rs = []"
  by (induction rs) auto

lemma insert_todo_Inr:
  assumes "insert_todo env p1 p2 p3 p4 d = (Inr rs, d')"
  shows "\<exists>t ds p c. varchar 255 p1 = Inr (Some t) \<and> varchar 255 p2 = Inr (Some ds) \<and>
           varchar 20 p3 = Inr p \<and> varchar 50 p4 = Inr c \<and>
           rs = [\<lparr>todo_id = seq_next d, title = t, description = ds, priority = p,
                  category = c, completed = Some False,
                  created_at = Some (current_timestamp env)\<rparr>] \<and>
           seq_next d \<le> 2147483647 \<and> seq_next d \<notin> set (map todo_id (rows d)) \<and>
           d' = d\<lparr>rows := rows d @ rs, seq_next := seq_next d + 1\<rparr>"
  using assms
  by (auto simp: insert_todo_def Let_def split: sum.splits option.splits if_splits)

lemma insert_todo_Inl:
  assumes "insert_todo env p1 p2 p3 p4 d = (Inl e, d')"
  shows "rows d' = rows d \<and> (seq_next d' = seq_next d \<or> seq_next d' = seq_next d + 1)"
  using assms
  by (auto simp: insert_todo_def Let_def split: sum.splits option.splits if_splits)

lemma varchar_Some:
  "varchar n (Some s) = Inr v \<Longrightarrow> v = Some (take n s)"
  by (auto simp: varchar_def split: if_splits)

lemma varchar_None: "varchar n v = Inr (Some t) \<Longrightarrow> v \<noteq> None"
  by (auto simp: varchar_def split: option.splits)

text \<open>What a Create request can lead to: the catch block with the table unchanged, or one new row.\<close>

lemma post_todos_cases:
  "(\<exists>e d'. post_todos (pool_query env) b d = catch_block e d' \<and> rows d' = rows d \<and>
       (seq_next d' = seq_next d \<or> seq_next d' = seq_next d + 1)) \<or>
   (\<exists>r. post_todos (pool_query env) b d =
           ((200, Json_todo r), [], d\<lparr>rows := rows d @ [r], seq_next := seq_next d + 1\<rparr>) \<and>
         connected env \<and> create_text_clean b \<and>
         varchar 255 (prepareValue (b ''title'')) = Inr (Some (title r)) \<and>
         varchar 255 (prepareValue (b ''description'')) = Inr (Some (description r)) \<and>
         varchar 20 (prepareValue (default_to ''medium'' (b ''priority''))) = Inr (priority r) \<and>
         varchar 50 (prepareValue (default_to ''general'' (b ''category''))) = Inr (category r) \<and>
         todo_id r = seq_next d \<and> completed r = Some False \<and>
         created_at r = Some (current_timestamp env) \<and>
         seq_next d \<le> 2147483647 \<and> seq_next d \<notin> set (map todo_id (rows d)))"
proof (cases "connected env \<and> create_text_clean b")
  case False
  then have "post_todos (pool_query env) b d =
      catch_block (if connected env then Invalid_byte_sequence else Connection_failure) d"
    using post_todos_refused[of env b d] by blast
  then show ?thesis by blast
next
  case True
  note run_insert = post_todos_insert[of env b d]
  obtain res d' where run: "insert_todo env (prepareValue (b ''title''))
      (prepareValue (b ''description'')) (prepareValue (default_to ''medium'' (b ''priority'')))
      (prepareValue (default_to ''general'' (b ''category''))) d = (res, d')"
    by (cases "insert_todo env (prepareValue (b ''title''))
      (prepareValue (b ''description'')) (prepareValue (default_to ''medium'' (b ''priority'')))
      (prepareValue (default_to ''general'' (b ''category''))) d") auto
  show ?thesis
  proof (cases res)
    case (Inl e)
    with run True run_insert have "post_todos (pool_query env) b d = catch_block e d'"
      by simp
    moreover from run Inl have "rows d' = rows d \<and>
        (seq_next d' = seq_next d \<or> seq_next d' = seq_next d + 1)"
      using insert_todo_Inl by blast
    ultimately show ?thesis by blast
  next
    case (Inr rs)
    with run have ins: "insert_todo env (prepareValue (b ''title''))
      (prepareValue (b ''description'')) (prepareValue (default_to ''medium'' (b ''priority'')))
      (prepareValue (default_to ''general'' (b ''category''))) d = (Inr rs, d')"
      by simp
    from insert_todo_Inr[OF ins] obtain t ds p c where
      conv: "varchar 255 (prepareValue (b ''title'')) = Inr (Some t)"
        "varchar 255 (prepareValue (b ''description'')) = Inr (Some ds)"
        "varchar 20 (prepareValue (default_to ''medium'' (b ''priority''))) = Inr p"
        "varchar 50 (prepareValue (default_to ''general'' (b ''category''))) = Inr c"
      and rs: "rs = [\<lparr>todo_id = seq_next d, title = t, description = ds, priority = p,
                  category = c, completed = Some False,
                  created_at = Some (current_timestamp env)\<rparr>]"
      and key: "seq_next d \<le> 2147483647" "seq_next d \<notin> set (map todo_id (rows d))"
      and d': "d' = d\<lparr>rows := rows d @ rs, seq_next := seq_next d + 1\<rparr>"
      by blast
    let ?r = "\<lparr>todo_id = seq_next d, title = t, description = ds, priority = p,
                  category = c, completed = Some False,
                  created_at = Some (current_timestamp env)\<rparr>"
    have "post_todos (pool_query env) b d =
           ((200, Json_todo ?r), [], d\<lparr>rows := rows d @ [?r], seq_next := seq_next d + 1\<rparr>)"
      using ins True run_insert rs d' by (simp add: res_json_first_def)
    with conv key True show ?thesis
      by (intro disjI2 exI[of _ ?r]) simp
  qed
qed

lemma catch_block_not_200: "response_of (catch_block e d') \<noteq> (200, Json_todo r)"
  by (simp add: catch_block_def response_of_def)

section \<open>Text that the store reads as an integer holds no U+0000\<close>

lemma nul_not_space: "\<not> is_space (CHR 0x00)"
  by (simp add: is_space_def)

lemma nul_not_digit: "\<not> is_digit (CHR 0x00)"
  by (simp add: is_digit_def)

lemma int4in_clean:
  assumes "int4in i = Inr k"
  shows "CHR 0x00 \<notin> set i"
proof
  assume nul: "CHR 0x00 \<in> set i"
  define body where "body = dropWhile is_space i"
  define rest where "rest = (case dropWhile is_space i of [] \<Rightarrow> []
                  | c # cs \<Rightarrow> if c = CHR ''-'' \<or> c = CHR ''+'' then cs
                             else dropWhile is_space i)"
  have "\<not> list_all is_space (dropWhile is_digit rest) \<Longrightarrow> int4in i = Inl (Invalid_integer i)"
    by (simp add: int4in_def Let_def rest_def)
  with assms have tail: "list_all is_space (dropWhile is_digit rest)"
    by auto
  have "i = takeWhile is_space i @ body"
    by (simp add: body_def)
  with nul have "CHR 0x00 \<in> set (takeWhile is_space i) \<or> CHR 0x00 \<in> set body"
    by (metis Un_iff set_append)
  then have in_body: "CHR 0x00 \<in> set body"
    using nul_not_space by (auto dest: set_takeWhileD)
  have "set body \<subseteq> {CHR ''-'', CHR ''+''} \<union> set rest"
  proof (cases body)
    case Nil
    then show ?thesis by simp
  next
    case (Cons c cs)
    then have "rest = (if c = CHR ''-'' \<or> c = CHR ''+'' then cs else body)"
      by (simp add: rest_def body_def[symmetric])
    with Cons show ?thesis by (cases "c = CHR ''-'' \<or> c = CHR ''+''") auto
  qed
  with in_body have in_rest: "CHR 0x00 \<in> set rest" by auto
  have "rest = takeWhile is_digit rest @ dropWhile is_digit rest" by simp
  with in_rest have "CHR 0x00 \<in> set (takeWhile is_digit rest) \<or>
      CHR 0x00 \<in> set (dropWhile is_digit rest)"
    by (metis Un_iff set_append)
  then show False
    using nul_not_digit nul_not_space tail
    by (auto simp: list_all_iff dest: set_takeWhileD)
qed

lemma get_by_key:
  assumes "connected env" "int4in i = Inr k"
  shows "get_todo_by_id (pool_query env) i d =
           (res_json_first (filter (\<lambda>x. Some (todo_id x) = Some k) (rows d)), [], d)"
  using assms int4in_clean[OF assms(2)]
  by (simp add: get_todo_by_id_def pool_query_def select_by_id_def int4_param_def has_nul_def)

lemma get_offline:
  "\<not> connected env \<Longrightarrow>
     get_todo_by_id (pool_query env) i d = catch_block Connection_failure d"
  by (simp add: get_todo_by_id_def pool_query_def)

section \<open>Create, then read\<close>

text \<open>
  C1, amended. Let the body hold four strings without U+0000 that fit their columns
  (title and description at most 255 characters, priority at most 20, category at most
  50), the store be reachable for both requests and have a key left in its sequence, and
  the keys of the table be unique and below the sequence (as every request leaves
  them). Then Create answers 200 with a record whose four fields are the four inputs,
  whose key is drawn from the store's sequence and whose creation time is the store's
  clock; and Get-by-id with that key, written in decimal, answers 200 with the same
  record.
\<close>

theorem create_then_get_round_trip:
  assumes "b ''title'' = JStr t" "b ''description'' = JStr ds"
    and "b ''priority'' = JStr p" "b ''category'' = JStr c"
    and "length t \<le> 255" "length ds \<le> 255" "length p \<le> 20" "length c \<le> 50"
    and "CHR 0x00 \<notin> set t" "CHR 0x00 \<notin> set ds" "CHR 0x00 \<notin> set p" "CHR 0x00 \<notin> set c"
    and "connected env" "connected env'" "db_ok d" "seq_next d \<le> 2147483647"
  shows "\<exists>r. response_of (post_todos (pool_query env) b d) = (200, Json_todo r) \<and>
             title r = t \<and> description r = ds \<and> priority r = Some p \<and> category r = Some c \<and>
             todo_id r = seq_next d \<and> created_at r = Some (current_timestamp env) \<and>
             response_of (get_todo_by_id (pool_query env') (number_toString (todo_id r))
                            (store_of (post_todos (pool_query env) b d))) =
               (200, Json_todo r)"
proof -
  let ?r = "expected_row (seq_next d) env b"
  have valid: "valid_create_body b"
    using assms(1-12) by (simp add: valid_create_body_def text_fits_def)
  have post: "post_todos (pool_query env) b d =
      ((200, Json_todo ?r), [], d\<lparr>rows := rows d @ [?r], seq_next := seq_next d + 1\<rparr>)"
    using post_valid[OF valid assms(13) assms(15) assms(16)] .
  have range: "- 2147483648 \<le> seq_next d" "seq_next d \<le> 2147483647"
    using assms(15,16) by (simp_all add: db_ok_def)
  have key: "int4in (number_toString (seq_next d)) = Inr (seq_next d)"
    using int4in_number_toString[OF range] .
  have get: "response_of (get_todo_by_id (pool_query env') (number_toString (todo_id ?r))
                 (store_of (post_todos (pool_query env) b d))) = (200, Json_todo ?r)"
    using get_by_key[OF assms(14) key] filter_no_key[OF db_ok_fresh[OF assms(15)]]
    by (simp add: post store_of_def response_of_def expected_row_id res_json_first_def)
  have fields: "title ?r = t \<and> description ?r = ds \<and> priority ?r = Some p \<and>
      category ?r = Some c \<and> todo_id ?r = seq_next d \<and>
      created_at ?r = Some (current_timestamp env)"
    using assms(1-4) by (simp add: expected_row_def text_of_def)
  show ?thesis
    using post get fields by (intro exI[of _ ?r]) (simp add: response_of_def)
qed

theorem create_then_get_round_trip_witness:
  "db_ok init_db \<and>
   response_of (post_todos (pool_query online) buy_milk init_db) =
     (200, Json_todo \<lparr>todo_id = 1, title = ''Buy milk'', description = ''2%'',
        priority = Some ''low'', category = Some ''shopping'', completed = Some False,
        created_at = Some 7\<rparr>) \<and>
   response_of (get_todo_by_id (pool_query online) (number_toString 1)
       (store_of (post_todos (pool_query online) buy_milk init_db))) =
     (200, Json_todo \<lparr>todo_id = 1, title = ''Buy milk'', description = ''2%'',
        priority = Some ''low'', category = Some ''shopping'', completed = Some False,
        created_at = Some 7\<rparr>)"
proof -
  have ok: "db_ok init_db" by (simp add: db_ok_def init_db_def)
  have seq: "seq_next init_db = 1" by (simp add: init_db_def)
  have on: "connected online" by (simp add: online_def)
  have fields: "buy_milk ''title'' = JStr ''Buy milk''" "buy_milk ''description'' = JStr ''2%''"
    "buy_milk ''priority'' = JStr ''low''" "buy_milk ''category'' = JStr ''shopping''"
    by (simp_all add: buy_milk_def empty_object_def)
  from create_then_get_round_trip[OF fields _ _ _ _ _ _ _ _ on on ok]
  obtain r where r: "response_of (post_todos (pool_query online) buy_milk init_db) =
      (200, Json_todo r)"
    "title r = ''Buy milk''" "description r = ''2%''" "priority r = Some ''low''"
    "category r = Some ''shopping''" "todo_id r = 1" "created_at r = Some 7"
    "response_of (get_todo_by_id (pool_query online) (number_toString (todo_id r))
       (store_of (post_todos (pool_query online) buy_milk init_db))) = (200, Json_todo r)"
    by (auto simp: seq online_def)
  have created: "response_of (post_todos (pool_query online) buy_milk init_db) =
     (200, Json_todo \<lparr>todo_id = 1, title = ''Buy milk'', description = ''2%'',
        priority = Some ''low'', category = Some ''shopping'', completed = Some False,
        created_at = Some 7\<rparr>)"
    by (simp add: store_eval handler_eval example_eval)
  with r(1) have "r = \<lparr>todo_id = 1, title = ''Buy milk'', description = ''2%'',
        priority = Some ''low'', category = Some ''shopping'', completed = Some False,
        created_at = Some 7\<rparr>"
    by simp
  with r(6,8) ok created show ?thesis by simp
qed

lemma varchar_spaced:
  "varchar 255 (Some (replicate 255 (CHR ''a'') @ '' '')) = Inr (Some (replicate 255 (CHR ''a'')))"
  by (simp add: varchar_def)

lemma spaced_title_fields:
  "spaced_title ''title'' = JStr (replicate 255 (CHR ''a'') @ '' '') \<and>
   spaced_title ''description'' = JStr ''2%'' \<and>
   spaced_title ''priority'' = JStr ''low'' \<and>
   spaced_title ''category'' = JStr ''shopping''"
  by (simp add: spaced_title_def buy_milk_def empty_object_def)

lemma spaced_title_clean: "create_text_clean spaced_title"
  by (simp add: create_text_clean_def spaced_title_fields has_nul_def)

lemma spaced_title_insert:
  "insert_todo online (Some (replicate 255 (CHR ''a'') @ '' '')) (Some ''2%'') (Some ''low'')
     (Some ''shopping'') init_db =
   (Inr [\<lparr>todo_id = 1, title = replicate 255 (CHR ''a''), description = ''2%'',
        priority = Some ''low'', category = Some ''shopping'', completed = Some False,
        created_at = Some 7\<rparr>],
    \<lparr>rows = [\<lparr>todo_id = 1, title = replicate 255 (CHR ''a''), description = ''2%'',
        priority = Some ''low'', category = Some ''shopping'', completed = Some False,
        created_at = Some 7\<rparr>], seq_next = 2\<rparr>)"
  by (simp add: insert_todo_def varchar_spaced varchar_fits Let_def init_db_def online_def)

lemma spaced_title_created:
  "response_of (post_todos (pool_query online) spaced_title init_db) =
     (200, Json_todo \<lparr>todo_id = 1, title = replicate 255 (CHR ''a''), description = ''2%'',
        priority = Some ''low'', category = Some ''shopping'', completed = Some False,
        created_at = Some 7\<rparr>)"
proof -
  have on: "connected online" by (simp add: online_def)
  have "post_todos (pool_query online) spaced_title init_db =
      (case insert_todo online (Some (replicate 255 (CHR ''a'') @ '' '')) (Some ''2%'')
              (Some ''low'') (Some ''shopping'') init_db of
         (Inr new_rows, d') \<Rightarrow> (res_json_first new_rows, [], d')
       | (Inl err, d') \<Rightarrow> catch_block err d')"
    unfolding post_todos_insert[OF on spaced_title_clean]
    by (simp add: spaced_title_fields default_to_def)
  then show ?thesis
    by (simp add: spaced_title_insert res_json_first_def response_of_def)
qed

text \<open>
  C1, as stated, fails. A title of 255 letters and a space is a string, and Create
  answers 200 for it, but the record holds the 255 letters only. A title that holds
  U+0000 is refused. Valid input is no help when the store cannot be reached, for
  Create or for Get-by-id, or when its sequence is used up.
\<close>

theorem round_trip_needs_fitting_text_and_a_ready_store:
  "spaced_title ''title'' = JStr (replicate 255 (CHR ''a'') @ '' '') \<and>
   response_of (post_todos (pool_query online) spaced_title init_db) =
     (200, Json_todo \<lparr>todo_id = 1, title = replicate 255 (CHR ''a''), description = ''2%'',
        priority = Some ''low'', category = Some ''shopping'', completed = Some False,
        created_at = Some 7\<rparr>) \<and>
   replicate 255 (CHR ''a'') \<noteq> replicate 255 (CHR ''a'') @ '' '' \<and>
   response_of (post_todos (pool_query online) nul_title init_db) =
     (500, Text ''Server Error'') \<and>
   response_of (post_todos (pool_query offline) buy_milk init_db) =
     (500, Text ''Server Error'') \<and>
   response_of (post_todos (pool_query online) buy_milk used_up) =
     (500, Text ''Server Error'') \<and>
   response_of (get_todo_by_id (pool_query offline) (number_toString 1)
       (store_of (post_todos (pool_query online) buy_milk init_db))) =
     (500, Text ''Server Error'')"
proof -
  have nul: "response_of (post_todos (pool_query online) nul_title init_db) =
     (500, Text ''Server Error'')"
    by (simp add: store_eval handler_eval example_eval)
  have off: "response_of (post_todos (pool_query offline) buy_milk init_db) =
     (500, Text ''Server Error'')"
    by (simp add: store_eval handler_eval example_eval)
  have used: "response_of (post_todos (pool_query online) buy_milk used_up) =
     (500, Text ''Server Error'')"
    by (simp add: store_eval handler_eval example_eval)
  have get: "response_of (get_todo_by_id (pool_query offline) (number_toString 1)
       (store_of (post_todos (pool_query online) buy_milk init_db))) =
     (500, Text ''Server Error'')"
    by (simp add: get_offline offline_def catch_block_response)
  have differ: "replicate 255 (CHR ''a'') \<noteq> replicate 255 (CHR ''a'') @ '' ''"
    by simp
  from spaced_title_fields spaced_title_created differ nul off used get
  show ?thesis by blast
qed

text \<open>
  C3. When the body omits priority and category, every record that Create returns has
  priority "medium" and category "general" and is the row appended to the table. A
  Create request that returns no record answers with the generic server error and
  leaves the rows of the table as they were.
\<close>

theorem create_defaults:
  assumes "b ''priority'' = JUndefined" "b ''category'' = JUndefined"
  shows "(response_of (post_todos (pool_query env) b d) = (200, Json_todo r) \<longrightarrow>
            priority r = Some ''medium'' \<and> category r = Some ''general'' \<and>
            rows (store_of (post_todos (pool_query env) b d)) = rows d @ [r]) \<and>
         ((\<exists>r'. response_of (post_todos (pool_query env) b d) = (200, Json_todo r')) \<or>
          response_of (post_todos (pool_query env) b d) = (500, Text ''Server Error'') \<and>
          rows (store_of (post_todos (pool_query env) b d)) = rows d)"
proof -
  have dflt: "varchar 20 (prepareValue (default_to ''medium'' (b ''priority''))) = Inr (Some ''medium'')"
    "varchar 50 (prepareValue (default_to ''general'' (b ''category''))) = Inr (Some ''general'')"
    using assms by (simp_all add: default_to_def varchar_def)
  have safety: "response_of (post_todos (pool_query env) b d) = (200, Json_todo r) \<longrightarrow>
            priority r = Some ''medium'' \<and> category r = Some ''general'' \<and>
            rows (store_of (post_todos (pool_query env) b d)) = rows d @ [r]"
    using post_todos_cases[of env b d] dflt
    by (auto simp: catch_block_not_200) (auto simp: response_of_def store_of_def)
  have other: "(\<exists>r'. response_of (post_todos (pool_query env) b d) = (200, Json_todo r')) \<or>
          response_of (post_todos (pool_query env) b d) = (500, Text ''Server Error'') \<and>
          rows (store_of (post_todos (pool_query env) b d)) = rows d"
    using post_todos_cases[of env b d]
    by (auto simp: catch_block_def response_of_def store_of_def)
  from safety other show ?thesis by simp
qed

theorem create_defaults_witness:
  "title_and_description ''priority'' = JUndefined \<and>
   title_and_description ''category'' = JUndefined \<and>
   response_of (post_todos (pool_query online) title_and_description init_db) =
     (200, Json_todo \<lparr>todo_id = 1, title = ''Minimal Todo'', description = ''Minimal test todo'',
        priority = Some ''medium'', category = Some ''general'', completed = Some False,
        created_at = Some 7\<rparr>) \<and>
   rows (store_of (post_todos (pool_query online) title_and_description init_db)) =
     [\<lparr>todo_id = 1, title = ''Minimal Todo'', description = ''Minimal test todo'',
        priority = Some ''medium'', category = Some ''general'', completed = Some False,
        created_at = Some 7\<rparr>]"
proof -
  have omitted: "title_and_description ''priority'' = JUndefined"
    "title_and_description ''category'' = JUndefined"
    by (simp_all add: title_and_description_def empty_object_def)
  have created: "response_of (post_todos (pool_query online) title_and_description init_db) =
     (200, Json_todo \<lparr>todo_id = 1, title = ''Minimal Todo'', description = ''Minimal test todo'',
        priority = Some ''medium'', category = Some ''general'', completed = Some False,
        created_at = Some 7\<rparr>)"
    by (simp add: store_eval handler_eval example_eval)
  have empty: "rows init_db = []" by (simp add: init_db_def)
  from create_defaults[OF omitted, of online init_db] created empty
  have "rows (store_of (post_todos (pool_query online) title_and_description init_db)) =
     [\<lparr>todo_id = 1, title = ''Minimal Todo'', description = ''Minimal test todo'',
        priority = Some ''medium'', category = Some ''general'', completed = Some False,
        created_at = Some 7\<rparr>]"
    by simp
  with omitted created show ?thesis by simp
qed

section \<open>Create without a required field\<close>









section \<open>Title and description of a created todo\<close>

text \<open>
  C9, as stated, fails: a Create request whose title and description are empty strings
  succeeds, and the stored row has an empty title and an empty description.
\<close>

theorem create_accepts_empty_title:
  "response_of (post_todos (pool_query online) blank_todo init_db) =
     (200, Json_todo \<lparr>todo_id = 1, title = [], description = [], priority = Some ''medium'',
        category = Some ''general'', completed = Some False, created_at = Some 7\<rparr>) \<and>
   rows (store_of (post_todos (pool_query online) blank_todo init_db)) =
     [\<lparr>todo_id = 1, title = [], description = [], priority = Some ''medium'',
        category = Some ''general'', completed = Some False, created_at = Some 7\<rparr>]"
  by (simp add: store_eval handler_eval example_eval)

lemma varchar_text_of:
  "varchar n (prepareValue v) = Inr (Some t) \<Longrightarrow>
     prepareValue v \<noteq> None \<and> t = take n (text_of v)"
  by (cases "prepareValue v") (auto simp: varchar_def text_of_def split: if_splits)

text \<open>
  C9, amended. Every Create request that succeeds had a title and a description that are
  not null (and not omitted), and the stored row, the last of the table, holds their
  texts cut to 255 characters. The texts may be empty.
\<close>

theorem created_title_and_description_not_null:
  assumes "response_of (post_todos (pool_query env) b d) = (200, Json_todo r)"
  shows "prepareValue (b ''title'') \<noteq> None \<and> prepareValue (b ''description'') \<noteq> None \<and>
         title r = take 255 (text_of (b ''title'')) \<and>
         description r = take 255 (text_of (b ''description'')) \<and>
         rows (store_of (post_todos (pool_query env) b d)) = rows d @ [r]"
proof -
  from post_todos_cases[of env b d] assms
  obtain r' where post: "post_todos (pool_query env) b d =
           ((200, Json_todo r'), [], d\<lparr>rows := rows d @ [r'], seq_next := seq_next d + 1\<rparr>)"
    and t: "varchar 255 (prepareValue (b ''title'')) = Inr (Some (title r'))"
    and ds: "varchar 255 (prepareValue (b ''description'')) = Inr (Some (description r'))"
    by (auto simp: catch_block_not_200)
  from post assms have r: "r' = r" by (simp add: response_of_def)
  show ?thesis
    using varchar_text_of[OF t] varchar_text_of[OF ds] post r
    by (simp add: store_of_def)
qed

theorem created_title_and_description_not_null_witness:
  "response_of (post_todos (pool_query online) blank_todo init_db) =
     (200, Json_todo \<lparr>todo_id = 1, title = [], description = [], priority = Some ''medium'',
        category = Some ''general'', completed = Some False, created_at = Some 7\<rparr>) \<and>
   prepareValue (blank_todo ''title'') = Some [] \<and>
   prepareValue (blank_todo ''description'') = Some []"
  using created_title_and_description_not_null[of online blank_todo init_db
      "\<lparr>todo_id = 1, title = [], description = [], priority = Some ''medium'',
        category = Some ''general'', completed = Some False, created_at = Some 7\<rparr>"]
  by (simp add: store_eval handler_eval example_eval)

section \<open>An id that matches no row\<close>

lemma filter_other_keys:
  "k \<notin> set (map todo_id rs) \<Longrightarrow> filter (\<lambda>x. todo_id x \<noteq> k) rs = rs"
  by (induction rs) auto

lemma accepted_cases: "accepted x \<longleftrightarrow> (\<exists>v. x = Inr v)"
  by (cases x) (simp_all add: accepted_def)

text \<open>
  For an id that the store reads as an integer and that is the key of no row, not-found
  is not an error: with the store reachable, Get-by-id answers 200 with an empty body,
  Delete answers with its success message, and Update does so when the store accepts the
  values of the body; none of them changes the store.
\<close>

lemma integer_id_without_row:
  assumes "connected env" "int4in i = Inr k" "k \<notin> set (map todo_id (rows d))"
  shows "get_todo_by_id (pool_query env) i d = ((200, Empty_body), [], d) \<and>
         delete_todo_by_id (pool_query env) i d =
           ((200, Json_message ''Todo deleted successfully''), [], d) \<and>
         store_of (put_todo_by_id (pool_query env) i b d) = d \<and>
         (update_values_accepted b \<longrightarrow>
            response_of (put_todo_by_id (pool_query env) i b d) =
              (200, Json_message ''Todo updated successfully''))"
proof -
  have clean: "\<not> has_nul (JStr i)"
    using int4in_clean[OF assms(2)] by (simp add: has_nul_def)
  have none: "filter (\<lambda>x. todo_id x = k) (rows d) = []"
    using assms(3) by (rule filter_no_key)
  have get: "get_todo_by_id (pool_query env) i d = ((200, Empty_body), [], d)"
    using get_by_key[OF assms(1,2), of d] none by (simp add: res_json_first_def)
  have del: "delete_todo_by_id (pool_query env) i d =
           ((200, Json_message ''Todo deleted successfully''), [], d)"
    using assms clean filter_other_keys[OF assms(3)]
    by (simp add: delete_todo_by_id_def pool_query_def delete_by_id_def int4_param_def)
  have put_store: "store_of (put_todo_by_id (pool_query env) i b d) = d"
    using assms(1,2) none
    by (simp add: put_todo_by_id_def pool_query_def update_params_def update_by_id_def
        int4_param_def store_of_def catch_block_def split: sum.splits)
  have put_resp: "update_values_accepted b \<longrightarrow>
      response_of (put_todo_by_id (pool_query env) i b d) =
        (200, Json_message ''Todo updated successfully'')"
    using assms(1,2) none clean
    by (auto simp: put_todo_by_id_def pool_query_def update_params_def update_by_id_def
        int4_param_def response_of_def catch_block_def update_values_accepted_def accepted_def
        split: sum.splits)
  from get del put_store put_resp show ?thesis by simp
qed

text \<open>
  C2. The claim is not met by the code for an id that is no integer: the store refuses
  to read "invalid" as a key, and Get-by-id, Update and Delete answer with the generic
  server error although no row matches, on any table.
\<close>

theorem invalid_id_gives_server_error:
  "response_of (get_todo_by_id (pool_query online) ''invalid'' d) =
     (500, Text ''Server Error'') \<and>
   response_of (delete_todo_by_id (pool_query online) ''invalid'' d) =
     (500, Text ''Server Error'') \<and>
   response_of (put_todo_by_id (pool_query online) ''invalid'' title_and_description d) =
     (500, Text ''Server Error'') \<and>
   logged_of (get_todo_by_id (pool_query online) ''invalid'' d) =
     [Invalid_integer ''invalid'']"
  by (simp add: store_eval handler_eval example_eval)

section \<open>The filtered list\<close>

lemma js_includes_sublist: "js_includes s t \<longleftrightarrow> sublist t s"
  by (induction s) (auto simp: sublist_Cons_right)

lemma or_default_spec: "or_default v dflt = spec_value absent_null_or_empty dflt v"
  by (cases v) (auto simp: or_default_def spec_value_def absent_null_or_empty_def)

text \<open>
  C7, amended. The filtered list is the stored list restricted, in its order, to the todos
  for which all three criteria hold: the search term occurs in the title or in the
  description regardless of case; the priority filter is "all"
  or equals the todo's priority, where a priority that is null or the empty string counts
  as "medium"; the category filter is "all" or equals the todo's category, where a
  category that is null or the empty string counts as "general". With an empty search
  term and both filters at "all" the filtered list is the stored list.
\<close>

theorem filtered_todos_conjunction:
  "filteredTodos st = filter (spec_matches absent_null_or_empty st) (todos st) \<and>
   (searchTerm st = [] \<and> filterPriority st = ''all'' \<and> filterCategory st = ''all'' \<longrightarrow>
      filteredTodos st = todos st)"
proof -
  have eq: "filteredTodos st = filter (spec_matches absent_null_or_empty st) (todos st)"
    unfolding filteredTodos_def
    by (rule filter_cong)
       (simp_all add: spec_matches_def js_includes_sublist or_default_spec Let_def)
  have dflt: "searchTerm st = [] \<and> filterPriority st = ''all'' \<and> filterCategory st = ''all'' \<longrightarrow>
      filteredTodos st = todos st"
    by (simp add: eq spec_matches_def toLowerCase_def)
  from eq dflt show ?thesis by simp
qed

theorem filtered_todos_conjunction_witness:
  "searchTerm (initial_state\<lparr>todos := three\<rparr>) = [] \<and>
   filterPriority (initial_state\<lparr>todos := three\<rparr>) = ''all'' \<and>
   filterCategory (initial_state\<lparr>todos := three\<rparr>) = ''all'' \<and>
   filteredTodos (initial_state\<lparr>todos := three\<rparr>) = three \<and>
   map todo_id (filteredTodos (initial_state\<lparr>todos := three, filterPriority := ''high'',
      filterCategory := ''work''\<rparr>)) = [2] \<and>
   map todo_id (filteredTodos (initial_state\<lparr>todos := three, searchTerm := ''MILK''\<rparr>)) = [1]"
proof -
  have all: "searchTerm (initial_state\<lparr>todos := three\<rparr>) = [] \<and>
      filterPriority (initial_state\<lparr>todos := three\<rparr>) = ''all'' \<and>
      filterCategory (initial_state\<lparr>todos := three\<rparr>) = ''all'' \<and>
      todos (initial_state\<lparr>todos := three\<rparr>) = three"
    by (simp add: initial_state_def)
  have both: "map todo_id (filter (spec_matches absent_null_or_empty
        (initial_state\<lparr>todos := three, filterPriority := ''high'', filterCategory := ''work''\<rparr>))
      (todos (initial_state\<lparr>todos := three, filterPriority := ''high'',
         filterCategory := ''work''\<rparr>))) = [2]"
    by code_simp
  have milk: "map todo_id (filter (spec_matches absent_null_or_empty
        (initial_state\<lparr>todos := three, searchTerm := ''MILK''\<rparr>))
      (todos (initial_state\<lparr>todos := three, searchTerm := ''MILK''\<rparr>))) = [1]"
    by code_simp
  have f1: "filteredTodos (initial_state\<lparr>todos := three\<rparr>) = three"
    using filtered_todos_conjunction[of "initial_state\<lparr>todos := three\<rparr>"] all by metis
  have f2: "map todo_id (filteredTodos (initial_state\<lparr>todos := three,
      filterPriority := ''high'', filterCategory := ''work''\<rparr>)) = [2]"
    using filtered_todos_conjunction[of "initial_state\<lparr>todos := three,
      filterPriority := ''high'', filterCategory := ''work''\<rparr>"] both by metis
  have f3: "map todo_id (filteredTodos (initial_state\<lparr>todos := three,
      searchTerm := ''MILK''\<rparr>)) = [1]"
    using filtered_todos_conjunction[of "initial_state\<lparr>todos := three,
      searchTerm := ''MILK''\<rparr>"] milk by metis
  from all f1 f2 f3 show ?thesis by blast
qed

text \<open>
  C7, as stated, fails: with the priority filter at "medium", the code keeps a todo whose
  priority is the empty string, which is neither absent nor equal to "medium".
\<close>

theorem empty_priority_counts_as_medium:
  "map todo_id (filteredTodos (initial_state\<lparr>todos := three, filterPriority := ''medium''\<rparr>)) = [1] \<and>
   filter (spec_matches absent_null (initial_state\<lparr>todos := three, filterPriority := ''medium''\<rparr>))
       (todos (initial_state\<lparr>todos := three, filterPriority := ''medium''\<rparr>)) = []"
  by code_simp

lemma accented_capital_is_folded:
  "toLowerCase [CHR 0xC9] = [CHR 0xE9] \<and> toLowerCase [CHR 0xD7] = [CHR 0xD7] \<and>
   toLowerCase ''MILK'' = ''milk''"
  by code_simp

section \<open>List after a series of creates\<close>

text \<open>One Create request: the generic error and the rows as they were, or one more row.\<close>

lemma post_todos_effect:
  "(response_of (post_todos (pool_query env) b d) = (500, Text ''Server Error'') \<and>
    rows (store_of (post_todos (pool_query env) b d)) = rows d \<and>
    seq_next d \<le> seq_next (store_of (post_todos (pool_query env) b d))) \<or>
   (\<exists>r. response_of (post_todos (pool_query env) b d) = (200, Json_todo r) \<and>
      rows (store_of (post_todos (pool_query env) b d)) = rows d @ [r] \<and>
      todo_id r = seq_next d \<and>
      seq_next (store_of (post_todos (pool_query env) b d)) = seq_next d + 1)"
  using post_todos_cases[of env b d]
  by (auto simp: catch_block_def response_of_def store_of_def)

lemma create_all_rows:
  assumes "\<forall>r \<in> set (rows d). todo_id r < seq_next d"
    and "sorted_wrt (<) (map todo_id (rows d))"
  shows "rows (snd (create_all reqs d)) = rows d @ created_records (fst (create_all reqs d)) \<and>
         sorted_wrt (<) (map todo_id (rows (snd (create_all reqs d)))) \<and>
         length (created_records (fst (create_all reqs d))) =
           length (filter (\<lambda>resp. fst resp = 200) (fst (create_all reqs d)))"
  using assms
proof (induction reqs arbitrary: d)
  case Nil
  then show ?case by simp
next
  case (Cons q reqs)
  obtain env b where q: "q = (env, b)" by (cases q)
  let ?h = "post_todos (pool_query env) b d"
  let ?d1 = "store_of ?h"
  obtain resps d2 where rest: "create_all reqs ?d1 = (resps, d2)"
    by (cases "create_all reqs ?d1")
  have step: "create_all (q # reqs) d = (response_of ?h # resps, d2)"
    by (simp add: q rest)
  from post_todos_effect[of env b d]
  show ?case
  proof (elim disjE conjE exE)
    assume failed: "response_of ?h = (500, Text ''Server Error'')"
      and same: "rows ?d1 = rows d" and seq: "seq_next d \<le> seq_next ?d1"
    have below: "\<forall>r \<in> set (rows ?d1). todo_id r < seq_next ?d1"
      using Cons.prems(1) same seq by auto
    have sorted: "sorted_wrt (<) (map todo_id (rows ?d1))"
      using Cons.prems(2) same by simp
    note ih = Cons.IH[OF below sorted, unfolded rest fst_conv snd_conv]
    from ih have table: "rows d2 = rows ?d1 @ created_records resps"
      and asc: "sorted_wrt (<) (map todo_id (rows d2))"
      and count: "length (created_records resps) =
        length (filter (\<lambda>resp. fst resp = 200) resps)"
      by blast+
    have g1: "rows d2 = rows d @ created_records (response_of ?h # resps)"
      using table same failed by simp
    have g3: "length (created_records (response_of ?h # resps)) =
        length (filter (\<lambda>resp. fst resp = 200) (response_of ?h # resps))"
      using count failed by simp
    from g1 asc g3 show ?thesis unfolding step fst_conv snd_conv by blast
  next
    fix r
    assume created: "response_of ?h = (200, Json_todo r)"
      and more: "rows ?d1 = rows d @ [r]" and key: "todo_id r = seq_next d"
      and seq: "seq_next ?d1 = seq_next d + 1"
    have below: "\<forall>r \<in> set (rows ?d1). todo_id r < seq_next ?d1"
      using Cons.prems(1) more key seq by auto
    have sorted: "sorted_wrt (<) (map todo_id (rows ?d1))"
      using Cons.prems(1,2) more key by (auto simp: sorted_wrt_append)
    note ih = Cons.IH[OF below sorted, unfolded rest fst_conv snd_conv]
    from ih have table: "rows d2 = rows ?d1 @ created_records resps"
      and asc: "sorted_wrt (<) (map todo_id (rows d2))"
      and count: "length (created_records resps) =
        length (filter (\<lambda>resp. fst resp = 200) resps)"
      by blast+
    have g1: "rows d2 = rows d @ created_records (response_of ?h # resps)"
      using table more created by simp
    have g3: "length (created_records (response_of ?h # resps)) =
        length (filter (\<lambda>resp. fst resp = 200) (response_of ?h # resps))"
      using count created by simp
    from g1 asc g3 show ?thesis unfolding step fst_conv snd_conv by blast
  qed
qed

text \<open>
  C6. Start from an empty table and send any series of Create requests. Then the table
  holds exactly the records that the successful requests returned, N of them when N
  requests answered 200, each once and in the order of the requests: their keys are
  strictly ascending, hence distinct. List answers 200 with these records in this order
  when the store is reachable (and with the generic server error when it is not).
\<close>

theorem list_after_creates:
  assumes "rows d = []"
  shows "rows (snd (create_all reqs d)) = created_records (fst (create_all reqs d)) \<and>
         length (created_records (fst (create_all reqs d))) =
           length (filter (\<lambda>resp. fst resp = 200) (fst (create_all reqs d))) \<and>
         sorted_wrt (<) (map todo_id (created_records (fst (create_all reqs d)))) \<and>
         distinct (map todo_id (created_records (fst (create_all reqs d)))) \<and>
         response_of (get_todos (pool_query env') (snd (create_all reqs d))) =
           (if connected env'
            then (200, Json_todos (created_records (fst (create_all reqs d))))
            else (500, Text ''Server Error''))"
proof -
  have start: "\<forall>r \<in> set (rows d). todo_id r < seq_next d"
    "sorted_wrt (<) (map todo_id (rows d))"
    using assms by simp_all
  from create_all_rows[OF start, of reqs]
  have appended: "rows (snd (create_all reqs d)) =
        rows d @ created_records (fst (create_all reqs d))"
    and asc: "sorted_wrt (<) (map todo_id (rows (snd (create_all reqs d))))"
    and count: "length (created_records (fst (create_all reqs d))) =
           length (filter (\<lambda>resp. fst resp = 200) (fst (create_all reqs d)))"
    by blast+
  have table: "rows (snd (create_all reqs d)) = created_records (fst (create_all reqs d))"
    using appended assms by simp
  have ascending: "sorted_wrt (<) (map todo_id (created_records (fst (create_all reqs d))))"
    using asc unfolding table .
  have once: "distinct (map todo_id (created_records (fst (create_all reqs d))))"
    using ascending by (simp add: strict_sorted_iff)
  have listed: "response_of (get_todos (pool_query env') (snd (create_all reqs d))) =
           (if connected env'
            then (200, Json_todos (created_records (fst (create_all reqs d))))
            else (500, Text ''Server Error''))"
    by (simp add: get_todos_def pool_query_def response_of_def catch_block_def table)
  from table count ascending once listed show ?thesis by blast
qed

theorem list_after_creates_witness:
  "rows init_db = [] \<and>
   map fst (fst (create_all
      [(online, buy_milk), (online, nul_title), (online, title_and_description)]
      init_db)) = [200, 500, 200] \<and>
   response_of (get_todos (pool_query online)
       (snd (create_all
          [(online, buy_milk), (online, nul_title), (online, title_and_description)]
          init_db))) =
     (200, Json_todos
       [\<lparr>todo_id = 1, title = ''Buy milk'', description = ''2%'',
         priority = Some ''low'', category = Some ''shopping'', completed = Some False,
         created_at = Some 7\<rparr>,
        \<lparr>todo_id = 2, title = ''Minimal Todo'',
         description = ''Minimal test todo'', priority = Some ''medium'',
         category = Some ''general'', completed = Some False, created_at = Some 7\<rparr>])"
proof -
  have empty: "rows init_db = []" by (simp add: init_db_def)
  have codes: "map fst (fst (create_all
      [(online, buy_milk), (online, nul_title), (online, title_and_description)]
      init_db)) = [200, 500, 200]"
    by (simp add: store_eval handler_eval example_eval)
  have records: "created_records (fst (create_all
      [(online, buy_milk), (online, nul_title), (online, title_and_description)]
      init_db)) =
     [\<lparr>todo_id = 1, title = ''Buy milk'', description = ''2%'',
         priority = Some ''low'', category = Some ''shopping'', completed = Some False,
         created_at = Some 7\<rparr>,
      \<lparr>todo_id = 2, title = ''Minimal Todo'',
         description = ''Minimal test todo'', priority = Some ''medium'',
         category = Some ''general'', completed = Some False, created_at = Some 7\<rparr>]"
    by (simp add: store_eval handler_eval example_eval)
  have on: "connected online" by (simp add: online_def)
  from list_after_creates[OF empty,
      of "[(online, buy_milk), (online, nul_title), (online, title_and_description)]"
         online]
  have "response_of (get_todos (pool_query online)
       (snd (create_all
          [(online, buy_milk), (online, nul_title), (online, title_and_description)]
          init_db))) =
     (200, Json_todos (created_records (fst (create_all
      [(online, buy_milk), (online, nul_title), (online, title_and_description)]
      init_db))))"
    using on by simp
  with empty codes records show ?thesis by simp
qed

section \<open>The key invariant is kept by every request\<close>

lemma insert_todo_db_ok:
  assumes "db_ok d"
  shows "db_ok (snd (insert_todo env p1 p2 p3 p4 d))"
  using assms
  by (auto simp: insert_todo_def db_ok_def list_all_iff Let_def
      split: sum.splits option.splits)

lemma overwrite_keeps_keys:
  "map (todo_id \<circ>
        (\<lambda>r. r\<lparr>title := t, description := ds, priority := p, category := c,
                 completed := dn\<rparr>)) rs = map todo_id rs"
  by (induction rs) auto

lemma moved_last_distinct:
  "distinct (map f rs) \<Longrightarrow>
     distinct (map f (filter (\<lambda>r. \<not> P r) rs) @ map f (filter P rs))"
  by (induction rs) auto

lemma moved_last_keys:
  "set (map f (filter (\<lambda>r. \<not> P r) rs) @ map f (filter P rs)) = set (map f rs)"
  by auto

lemma db_ok_keys:
  "db_ok d \<longleftrightarrow>
     distinct (map todo_id (rows d)) \<and> 1 \<le> seq_next d \<and>
     (\<forall>k \<in> set (map todo_id (rows d)). k < seq_next d)"
  by (auto simp: db_ok_def list_all_iff)

lemma update_by_id_db_ok:
  assumes "db_ok d"
  shows "db_ok (snd (update_by_id p1 p2 p3 p4 p5 p6 d))"
proof -
  have written: "db_ok (d\<lparr>rows :=
      filter (\<lambda>r. Some (todo_id r) \<noteq> key) (rows d) @
      map (\<lambda>r. r\<lparr>title := t, description := ds, priority := p, category := c,
                   completed := dn\<rparr>)
        (filter (\<lambda>r. Some (todo_id r) = key) (rows d))\<rparr>)" for key t ds p c dn
  proof -
    have keys: "map todo_id
        (filter (\<lambda>r. Some (todo_id r) \<noteq> key) (rows d) @
         map (\<lambda>r. r\<lparr>title := t, description := ds, priority := p, category := c,
                   completed := dn\<rparr>)
           (filter (\<lambda>r. Some (todo_id r) = key) (rows d))) =
        map todo_id (filter (\<lambda>r. \<not> Some (todo_id r) = key) (rows d)) @
        map todo_id (filter (\<lambda>r. Some (todo_id r) = key) (rows d))"
      by (simp add: overwrite_keeps_keys)
    from assms have "distinct (map todo_id (rows d))" "1 \<le> seq_next d"
      "\<forall>k \<in> set (map todo_id (rows d)). k < seq_next d"
      by (simp_all add: db_ok_keys)
    then show ?thesis
      unfolding db_ok_keys
      using moved_last_distinct[of todo_id "rows d" "\<lambda>r. Some (todo_id r) = key"]
        moved_last_keys[of todo_id "\<lambda>r. Some (todo_id r) = key" "rows d"]
      by (auto simp: overwrite_keeps_keys)
  qed
  show ?thesis
    using assms written
    by (simp add: update_by_id_def split: sum.splits option.splits)
qed

lemma delete_by_id_db_ok:
  assumes "db_ok d"
  shows "db_ok (snd (delete_by_id p1 d))"
  using assms
  by (auto simp: delete_by_id_def db_ok_def list_all_iff distinct_map_filter
      split: sum.splits)

text \<open>Every request leaves the key invariant of the table intact.\<close>

lemma api_preserves_db_ok:
  assumes "db_ok d"
  shows "db_ok (store_of (post_todos (pool_query env) b d)) \<and>
         db_ok (store_of (get_todos (pool_query env) d)) \<and>
         db_ok (store_of (get_todo_by_id (pool_query env) i d)) \<and>
         db_ok (store_of (put_todo_by_id (pool_query env) i b d)) \<and>
         db_ok (store_of (delete_todo_by_id (pool_query env) i d))"
proof -
  have post: "store_of (post_todos (pool_query env) b d) = d \<or>
      store_of (post_todos (pool_query env) b d) =
        snd (insert_todo env (prepareValue (b ''title'')) (prepareValue (b ''description''))
          (prepareValue (default_to ''medium'' (b ''priority'')))
          (prepareValue (default_to ''general'' (b ''category''))) d)"
    by (auto simp: post_todos_def pool_query_def create_params_def store_of_def catch_block_def
        split: prod.splits sum.splits)
  have list: "store_of (get_todos (pool_query env) d) = d"
    by (simp add: get_todos_def pool_query_def store_of_def catch_block_def)
  have get: "store_of (get_todo_by_id (pool_query env) i d) = d"
    by (simp add: get_todo_by_id_def pool_query_def select_by_id_def store_of_def
        catch_block_def split: sum.splits)
  have put: "store_of (put_todo_by_id (pool_query env) i b d) = d \<or>
      store_of (put_todo_by_id (pool_query env) i b d) =
        snd (update_by_id (prepareValue (b ''title'')) (prepareValue (b ''description''))
          (prepareValue (b ''priority'')) (prepareValue (b ''category''))
          (prepareValue (b ''completed'')) (Some i) d)"
    by (auto simp: put_todo_by_id_def pool_query_def update_params_def store_of_def
        catch_block_def split: prod.splits sum.splits)
  have del: "store_of (delete_todo_by_id (pool_query env) i d) = d \<or>
      store_of (delete_todo_by_id (pool_query env) i d) = snd (delete_by_id (Some i) d)"
    by (auto simp: delete_todo_by_id_def pool_query_def store_of_def catch_block_def
        split: prod.splits sum.splits)
  show ?thesis
    using assms post list get put del insert_todo_db_ok update_by_id_db_ok delete_by_id_db_ok
    by metis
qed

lemma init_db_ok: "db_ok init_db"
  by (simp add: db_ok_def init_db_def)

end
